theory Spec2Isabelle
  imports Main "HOL-Library.Sublist" "HOL-Library.Word"
begin

section \<open>The fragment of Go and of its libraries that the package uses\<close>

text \<open>
  The package \<^verbatim>\<open>grace\<close> composes functions through the \<^verbatim>\<open>reflect\<close> library. The
  library is not part of the repository; the definitions of this section give the
  behaviour documented for it on a fragment of Go's types: the predeclared types
  \<^verbatim>\<open>int\<close>, \<^verbatim>\<open>string\<close>, \<^verbatim>\<open>bool\<close>, defined types without methods, the concrete
  error types of the libraries, and interface types with any method set. Functions are
  not variadic. A method is its name together with its signature.
\<close>

datatype gotype =
    TInt
  | TString
  | TBool
  | TDefined string
  | TErrorImpl string
  | TInterface string "string list"

text \<open>\<^verbatim>\<open>Type.String()\<close>, which \<^verbatim>\<open>%s\<close> prints.\<close>

fun type_String :: "gotype \<Rightarrow> string" where
  "type_String TInt = ''int''"
| "type_String TString = ''string''"
| "type_String TBool = ''bool''"
| "type_String (TDefined n) = n"
| "type_String (TErrorImpl n) = n"
| "type_String (TInterface n ms) = n"

fun method_set :: "gotype \<Rightarrow> string list" where
  "method_set (TErrorImpl n) = [''Error() string'']"
| "method_set (TInterface n ms) = ms"
| "method_set t = []"

fun is_interface :: "gotype \<Rightarrow> bool" where
  "is_interface (TInterface n ms) = True"
| "is_interface t = False"

definition implements :: "gotype \<Rightarrow> gotype \<Rightarrow> bool" where
  "implements t u = (is_interface u \<and> set (method_set u) \<subseteq> set (method_set t))"

text \<open>
  \<^verbatim>\<open>t.AssignableTo(u)\<close> on non-nil types: the types are identical, or \<^verbatim>\<open>u\<close> is an
  interface that \<^verbatim>\<open>t\<close> implements. (On this fragment the rule for identical
  underlying types adds nothing: every non-interface type is named.)
\<close>

definition AssignableTo :: "gotype \<Rightarrow> gotype \<Rightarrow> bool" where
  "AssignableTo t u = (t = u \<or> implements t u)"

definition error_type :: gotype where
  "error_type = TInterface ''error'' [''Error() string'']"

definition any_type :: gotype where
  "any_type = TInterface ''interface {}'' []"

subsection \<open>Errors\<close>

text \<open>
  An error value is built by \<^verbatim>\<open>errors.New\<close> (or \<^verbatim>\<open>fmt.Errorf\<close> without \<^verbatim>\<open>%w\<close>), by
  \<^verbatim>\<open>fmt.Errorf\<close> with one \<^verbatim>\<open>%w\<close> (the formatted message and the wrapped error), by
  \<^verbatim>\<open>errors.Join\<close>, or is a value of some other error type (its type name and its
  message), or is a nil pointer of a concrete error type (the name of the type): an
  \<^verbatim>\<open>error\<close> that holds such a pointer is not nil. Go compares the errors that these
  functions make by address; here two errors with the same content are the same error.
\<close>

datatype goerr =
    ErrorString string
  | WrapError string goerr
  | JoinError "goerr list"
  | CustomError string string
  | NilPointer string

fun join_lines :: "string list \<Rightarrow> string" where
  "join_lines [] = []"
| "join_lines [l] = l"
| "join_lines (l # ls) = l @ [CHR 0x0A] @ join_lines ls"

text \<open>
  The method \<^verbatim>\<open>Error()\<close>: the text, or \<open>None\<close> when the call panics. It panics on a
  nil pointer (the methods of the concrete error types read a field of the receiver),
  and so does the \<^verbatim>\<open>Error()\<close> of a join that holds one, which calls the \<^verbatim>\<open>Error()\<close> of
  each of its errors.
\<close>

fun Error :: "goerr \<Rightarrow> string option" where
  "Error (ErrorString m) = Some m"
| "Error (WrapError m e) = Some m"
| "Error (JoinError es) = map_option join_lines (those (map Error es))"
| "Error (CustomError n m) = Some m"
| "Error (NilPointer n) = None"

text \<open>
  What \<^verbatim>\<open>fmt.Errorf\<close> prints for an error under \<^verbatim>\<open>%w\<close>: the text of \<^verbatim>\<open>Error()\<close>; when
  that call panics, \<^verbatim>\<open><nil>\<close> for a nil pointer and the report of the panic otherwise.
\<close>

fun fmt_w :: "goerr \<Rightarrow> string" where
  "fmt_w (NilPointer n) = ''<nil>''"
| "fmt_w e =
     (case Error e of
        Some m \<Rightarrow> m
      | None \<Rightarrow> ''%!v(PANIC=Error method: runtime error: invalid memory address or nil pointer dereference)'')"

text \<open>\<^verbatim>\<open>errors.Join\<close>: the nil errors are dropped; nil when none is left.\<close>

definition errors_Join :: "goerr option list \<Rightarrow> goerr option" where
  "errors_Join errs =
     (let es = List.map_filter id errs in if es = [] then None else Some (JoinError es))"

fun errors_Is :: "goerr \<Rightarrow> goerr \<Rightarrow> bool" where
  "errors_Is (WrapError m e) target = (WrapError m e = target \<or> errors_Is e target)"
| "errors_Is (JoinError es) target = (JoinError es = target \<or> (\<exists>e \<in> set es. errors_Is e target))"
| "errors_Is e target = (e = target)"

text \<open>The decimal digits that \<^verbatim>\<open>%d\<close> and \<^verbatim>\<open>%v\<close> print for a length or an index.\<close>

definition digit_char :: "nat \<Rightarrow> char" where
  "digit_char n = ''0123456789'' ! n"

fun decimal :: "nat \<Rightarrow> string" where
  "decimal n = (if n < 10 then [digit_char n] else decimal (n div 10) @ [digit_char (n mod 10)])"

declare decimal.simps [simp del]

subsection \<open>Values\<close>

text \<open>
  A value as an \<^verbatim>\<open>interface{}\<close> holds it: nil, or a value with its dynamic type.
  \<^verbatim>\<open>int\<close> is 64 bits wide.
\<close>

datatype goval =
    VNil
  | VInt "64 word"
  | VString string
  | VBool bool
  | VDefined string nat
  | VError goerr

fun error_impl_name :: "goerr \<Rightarrow> string" where
  "error_impl_name (ErrorString m) = ''*errors.errorString''"
| "error_impl_name (WrapError m e) = ''*fmt.wrapError''"
| "error_impl_name (JoinError es) = ''*errors.joinError''"
| "error_impl_name (CustomError n m) = n"
| "error_impl_name (NilPointer n) = n"

text \<open>\<^verbatim>\<open>reflect.TypeOf\<close>: None is the nil \<^verbatim>\<open>reflect.Type\<close> it returns for a nil interface.\<close>

fun TypeOf :: "goval \<Rightarrow> gotype option" where
  "TypeOf VNil = None"
| "TypeOf (VInt n) = Some TInt"
| "TypeOf (VString s) = Some TString"
| "TypeOf (VBool b) = Some TBool"
| "TypeOf (VDefined n k) = Some (TDefined n)"
| "TypeOf (VError e) = Some (TErrorImpl (error_impl_name e))"

text \<open>
  \<^verbatim>\<open>*new(T)\<close>, the zero value of a type. The concrete error types are pointers;
  their zero value is the nil pointer of the type, which is not the nil interface.
\<close>

fun Zero :: "gotype \<Rightarrow> goval" where
  "Zero TInt = VInt 0"
| "Zero TString = VString []"
| "Zero TBool = VBool False"
| "Zero (TDefined n) = VDefined n 0"
| "Zero (TErrorImpl n) = VError (NilPointer n)"
| "Zero (TInterface n ms) = VNil"

datatype panic =
    NilDereference
  | ZeroValue
  | InterfaceConversion
  | IndexOutOfRange
  | CallArguments
  | UserPanic string

datatype 'a outcome = Panic panic | Ok 'a

text \<open>
  The type assertion \<^verbatim>\<open>x.(T)\<close> in its one-result form: it panics unless \<^verbatim>\<open>x\<close> is not nil
  and its dynamic type is \<^verbatim>\<open>T\<close> (or implements the interface \<^verbatim>\<open>T\<close>).
\<close>

definition type_assert :: "goval \<Rightarrow> gotype \<Rightarrow> goval outcome" where
  "type_assert x T =
     (case TypeOf x of
        None \<Rightarrow> Panic InterfaceConversion
      | Some d \<Rightarrow>
          if (if is_interface T then implements d T else d = T) then Ok x
          else Panic InterfaceConversion)"

text \<open>
  \<^verbatim>\<open>err, ok := x.(error)\<close> followed by \<^verbatim>\<open>ok && err != nil\<close>: the error held, if any.
  A nil pointer of a concrete error type is an error held: only the nil interface
  gives none.
\<close>

fun error_assert :: "goval \<Rightarrow> goerr option" where
  "error_assert (VError e) = Some e"
| "error_assert x = None"

subsection \<open>Functions and reflected values\<close>

record functype =
  params :: "gotype list"
  results :: "gotype list"

definition NumIn :: "functype \<Rightarrow> nat" where
  "NumIn ft = length (params ft)"

definition NumOut :: "functype \<Rightarrow> nat" where
  "NumOut ft = length (results ft)"

text \<open>\<^verbatim>\<open>In(i)\<close> and \<^verbatim>\<open>Out(i)\<close>; every caller below has checked the index.\<close>

definition In :: "functype \<Rightarrow> nat \<Rightarrow> gotype" where
  "In ft i = params ft ! i"

definition Out :: "functype \<Rightarrow> nat \<Rightarrow> gotype" where
  "Out ft i = results ft ! i"

text \<open>
  A function value over a program state \<^typ>\<open>'s\<close>: its type, and what a call does to
  the state and returns (or that it panics).
\<close>

record 's gofunc =
  fnType :: functype
  body :: "goval list \<Rightarrow> 's \<Rightarrow> goval list outcome \<times> 's"

text \<open>A \<^verbatim>\<open>reflect.Value\<close>: the zero Value, or a type and the value of that type.\<close>

datatype rvalue = Invalid | RV gotype goval

fun ValueOf :: "goval \<Rightarrow> rvalue" where
  "ValueOf x = (case TypeOf x of None \<Rightarrow> Invalid | Some t \<Rightarrow> RV t x)"

fun Interface :: "rvalue \<Rightarrow> goval outcome" where
  "Interface Invalid = Panic ZeroValue"
| "Interface (RV t x) = Ok x"

fun arg_ok :: "rvalue \<Rightarrow> gotype \<Rightarrow> bool" where
  "arg_ok Invalid t = False"
| "arg_ok (RV a x) t = AssignableTo a t"

fun rvalue_data :: "rvalue \<Rightarrow> goval" where
  "rvalue_data Invalid = VNil"
| "rvalue_data (RV t x) = x"

text \<open>
  \<^verbatim>\<open>Value.Call\<close>: it panics when the number of arguments is not the number of
  parameters or when an argument's type is not assignable to its parameter's;
  otherwise the function runs, and each result comes back with the function's
  declared result type.
\<close>

definition Call :: "'s gofunc \<Rightarrow> rvalue list \<Rightarrow> 's \<Rightarrow> rvalue list outcome \<times> 's" where
  "Call f args s =
     (if length args \<noteq> NumIn (fnType f) then (Panic CallArguments, s)
      else if \<not> list_all2 arg_ok args (params (fnType f)) then (Panic CallArguments, s)
      else case body f (map rvalue_data args) s of
             (Panic p, s') \<Rightarrow> (Panic p, s')
           | (Ok rets, s') \<Rightarrow> (Ok (map2 RV (results (fnType f)) rets), s'))"

text \<open>Whether \<^verbatim>\<open>Value.Call\<close> gets past its checks and enters the function.\<close>

definition Call_enters :: "'s gofunc \<Rightarrow> rvalue list \<Rightarrow> bool" where
  "Call_enters f args =
     (length args = NumIn (fnType f) \<and> list_all2 arg_ok args (params (fnType f)))"

section \<open>task.go\<close>

text \<open>
  What the program does is recorded beside its state: one event each time a task's
  function is entered and each time a cleanup function is called. The events are not
  in the source; they make "runs exactly once" and "is never invoked" statable.
\<close>

datatype event = EvCall string | EvTaskCleanup string | EvChainCleanup string

record 's world =
  ustate :: 's
  trace :: "event list"

text \<open>
  A cleanup function changes the state and returns an error or nil. A cleanup that
  panics is not modelled.
\<close>

type_synonym 's cleanup = "'s \<Rightarrow> goerr option \<times> 's"

record 's Task =
  Name :: string
  Fn :: "'s gofunc"
  ReturnValueTypes :: "gotype list"
  hasErrorOut :: bool
  Cleanup :: "'s cleanup option"

text \<open>
  \<^verbatim>\<open>TaskConfig.Fn\<close> is an \<^verbatim>\<open>interface{}\<close>: a function, or some other value, nil
  among them.
\<close>

datatype 's anyfn = FnFunc "'s gofunc" | FnValue goval

fun is_nil :: "'s anyfn \<Rightarrow> bool" where
  "is_nil (FnValue VNil) = True"
| "is_nil x = False"

record 's TaskConfig =
  cfgName :: string
  cfgCleanup :: "'s cleanup option"
  cfgFn :: "'s anyfn"

definition NotFuncErr :: goerr where
  "NotFuncErr = ErrorString ''Fn must be a function''"

definition IncompatibleFunctionSignatureErr :: goerr where
  "IncompatibleFunctionSignatureErr = ErrorString ''incompatible task function signatures''"

text \<open>
  \<^verbatim>\<open>isFunc\<close>, given the value whose \<^verbatim>\<open>reflect.Type\<close> the source passes: the kind of
  that type is \<^verbatim>\<open>reflect.Func\<close> exactly for a function.
\<close>

fun isFunc :: "'s anyfn \<Rightarrow> goerr option" where
  "isFunc (FnFunc f) = None"
| "isFunc x = Some NotFuncErr"

definition hasErrorOut_of :: "functype \<Rightarrow> bool" where
  "hasErrorOut_of fn = (NumOut fn > 0 \<and> AssignableTo (Out fn (NumOut fn - 1)) error_type)"

text \<open>
  The loop of \<^verbatim>\<open>getReturnValueTypes\<close>, \<^verbatim>\<open>types[i] = fn.Out(i)\<close> for \<^verbatim>\<open>i < size\<close>:
  the slots from \<^verbatim>\<open>i\<close> on.
\<close>

function fill_types :: "functype \<Rightarrow> nat \<Rightarrow> nat \<Rightarrow> gotype list" where
  "fill_types fn n i = (if i < n then Out fn i # fill_types fn n (i + 1) else [])"
  by pat_completeness auto
termination
  by (relation "measure (\<lambda>(fn, n, i). n - i)") auto

declare fill_types.simps [simp del]

definition getReturnValueTypes :: "functype \<Rightarrow> bool \<Rightarrow> gotype list" where
  "getReturnValueTypes fn hasErrOut =
     (if NumOut fn = 0 then []
      else let n = (if hasErrOut then NumOut fn - 1 else NumOut fn)
           in fill_types fn n 0)"

text \<open>
  \<^verbatim>\<open>NewTask\<close>. Once \<^verbatim>\<open>isFunc\<close> has passed, \<^verbatim>\<open>config.Fn\<close> is a function; the last
  branch is never taken.
\<close>

definition NewTask :: "'s TaskConfig \<Rightarrow> goerr + 's Task" where
  "NewTask config =
     (if is_nil (cfgFn config) then
        Inl (ErrorString (''failed to create task: '' @ [CHR 0x27] @ cfgName config @ [CHR 0x27]
               @ '': Fn cannot be nil''))
      else (case isFunc (cfgFn config) of
              Some err \<Rightarrow>
                Inl (WrapError (''failed to create task '' @ [CHR 0x27] @ cfgName config @ [CHR 0x27]
                       @ '': '' @ fmt_w err) err)
            | None \<Rightarrow>
                (case cfgFn config of
                   FnFunc f \<Rightarrow>
                     (let hasErrOut = hasErrorOut_of (fnType f)
                      in Inr \<lparr> Name = cfgName config, Fn = f,
                               ReturnValueTypes = getReturnValueTypes (fnType f) hasErrOut,
                               hasErrorOut = hasErrOut, Cleanup = cfgCleanup config \<rparr>)
                 | FnValue x \<Rightarrow> Inl NotFuncErr)))"

text \<open>\<^verbatim>\<open>Task.doCleanup\<close>.\<close>

definition Task_doCleanup ::
  "'s Task \<Rightarrow> rvalue list \<Rightarrow> goerr option \<Rightarrow> 's world \<Rightarrow> (rvalue list \<times> goerr option) \<times> 's world" where
  "Task_doCleanup t v err w =
     (case Cleanup t of
        None \<Rightarrow> ((v, err), w)
      | Some c \<Rightarrow>
          (case c (ustate w) of
             (cuErr, s') \<Rightarrow>
               let w' = w\<lparr>ustate := s', trace := trace w @ [EvTaskCleanup (Name t)]\<rparr>
               in if cuErr \<noteq> None then ((v, errors_Join [cuErr, err]), w') else ((v, err), w')))"

text \<open>
  \<^verbatim>\<open>Task.Run\<close>. A nil slice and an empty slice are both the empty list.
  \<^verbatim>\<open>ret[len(ret)-1]\<close> on an empty \<^verbatim>\<open>ret\<close> is the index panic of Go.
\<close>

definition Task_Run ::
  "'s Task \<Rightarrow> rvalue list \<Rightarrow> 's world \<Rightarrow> (rvalue list \<times> goerr option) outcome \<times> 's world" where
  "Task_Run t ps w =
     (case Call (Fn t) ps (ustate w) of
        (Panic p, s') \<Rightarrow>
          (Panic p, w\<lparr>ustate := s',
                       trace := trace w @ (if Call_enters (Fn t) ps then [EvCall (Name t)] else [])\<rparr>)
      | (Ok ret, s') \<Rightarrow>
          let w' = w\<lparr>ustate := s', trace := trace w @ [EvCall (Name t)]\<rparr>
          in if hasErrorOut t then
               (if ret = [] then (Panic IndexOutOfRange, w')
                else case Interface (last ret) of
                       Panic p \<Rightarrow> (Panic p, w')
                     | Ok x \<Rightarrow>
                         (case error_assert x of
                            Some err \<Rightarrow>
                              (case Task_doCleanup t [] (Some err) w' of (r, w'') \<Rightarrow> (Ok r, w''))
                          | None \<Rightarrow>
                              (case Task_doCleanup t (butlast ret) None w' of
                                 (r, w'') \<Rightarrow> (Ok r, w''))))
             else (case Task_doCleanup t ret None w' of (r, w'') \<Rightarrow> (Ok r, w'')))"

section \<open>The verifier\<close>

text \<open>The loop of \<^verbatim>\<open>verifyTaskCompatibility\<close> from position \<^verbatim>\<open>i\<close> on.\<close>

function range_ReturnValueTypes :: "'s Task \<Rightarrow> 's Task \<Rightarrow> nat \<Rightarrow> goerr option" where
  "range_ReturnValueTypes output input i =
     (if i < length (ReturnValueTypes output) then
        (if \<not> AssignableTo (In (fnType (Fn input)) i) (ReturnValueTypes output ! i) then
           errors_Join [Some IncompatibleFunctionSignatureErr,
             Some (ErrorString (''between '' @ Name output @ '' and '' @ Name input @ '': ''
                     @ type_String (ReturnValueTypes output ! i) @ '' is not assignable to ''
                     @ type_String (In (fnType (Fn input)) i)))]
         else range_ReturnValueTypes output input (i + 1))
      else None)"
  by pat_completeness auto
termination
  by (relation "measure (\<lambda>(output, input, i). length (ReturnValueTypes output) - i)") auto

declare range_ReturnValueTypes.simps [simp del]

definition verifyTaskCompatibility :: "'s Task \<Rightarrow> 's Task \<Rightarrow> goerr option" where
  "verifyTaskCompatibility output input =
     (if length (ReturnValueTypes output) \<noteq> NumIn (fnType (Fn input)) then
        errors_Join [Some IncompatibleFunctionSignatureErr,
          Some (ErrorString (Name output @ '' has '' @ decimal (length (ReturnValueTypes output))
                  @ '' output(s), but '' @ Name input @ '' expects ''
                  @ decimal (NumIn (fnType (Fn input))) @ '' input(s)''))]
      else range_ReturnValueTypes output input 0)"

definition verifyReturnType :: "gotype \<Rightarrow> 's Task \<Rightarrow> goerr option" where
  "verifyReturnType T last_task =
     (let typ = fnType (Fn last_task)
      in if NumOut typ = 0 then None
         else let retTyp = T; outTyp = Out typ (NumOut typ - 1)
              in if \<not> AssignableTo outTyp retTyp then
                   Some (ErrorString (''return type '' @ type_String outTyp
                           @ '' is not compatible to the last output type: '' @ type_String retTyp))
                 else None)"

text \<open>
  The loop of \<^verbatim>\<open>verifyInitialParams\<close> from position \<^verbatim>\<open>i\<close> on. \<^verbatim>\<open>reflect.TypeOf(p)\<close>
  is the nil \<^verbatim>\<open>Type\<close> for a nil \<^verbatim>\<open>p\<close>, and calling \<^verbatim>\<open>AssignableTo\<close> on it is a nil
  dereference.
\<close>

function range_params :: "functype \<Rightarrow> goval list \<Rightarrow> nat \<Rightarrow> goerr option outcome" where
  "range_params firstFn ps i =
     (if i < length ps then
        (let expectedType = In firstFn i; actualType = TypeOf (ps ! i)
         in case actualType of
              None \<Rightarrow> Panic NilDereference
            | Some a \<Rightarrow>
                if \<not> AssignableTo a expectedType then
                  Ok (Some (ErrorString (''invalid input params: expected '' @ type_String expectedType
                        @ '' at '' @ decimal (i + 1) @ '' but got '' @ type_String a)))
                else range_params firstFn ps (i + 1))
      else Ok None)"
  by pat_completeness auto
termination
  by (relation "measure (\<lambda>(firstFn, ps, i). length ps - i)") auto

declare range_params.simps [simp del]

definition verifyInitialParams :: "functype \<Rightarrow> goval list \<Rightarrow> goerr option outcome" where
  "verifyInitialParams firstFn ps =
     (let paramSize = length ps; expectedSize = NumIn firstFn
      in if paramSize \<noteq> expectedSize then
           Ok (Some (ErrorString (''invalid input params: expected '' @ decimal expectedSize
                 @ '' params but got '' @ decimal paramSize)))
         else range_params firstFn ps 0)"

section \<open>The task chain\<close>

text \<open>
  \<^verbatim>\<open>TaskChain[T]\<close>: the type parameter is the field \<open>ResultType\<close>.
\<close>

record 's TaskChain =
  Tasks :: "'s Task list"
  chainCleanup :: "'s cleanup option"
  chainName :: string
  hasOutput :: bool
  ResultType :: gotype

text \<open>\<^verbatim>\<open>TaskChainConfig\<close>: \<open>None\<close> in \<open>ccTasks\<close> is a nil \<^verbatim>\<open>*Task\<close>.\<close>

record 's TaskChainConfig =
  ccName :: string
  ccCleanup :: "'s cleanup option"
  ccTasks :: "'s Task option list"

text \<open>
  The first loop of \<^verbatim>\<open>NewTaskChain\<close>: a nil entry at \<^verbatim>\<open>i\<close> is cut out and \<^verbatim>\<open>i\<close>
  stays (\<^verbatim>\<open>i--\<close>, then the loop's \<^verbatim>\<open>i++\<close>).
\<close>

function remove_nil :: "'a option list \<Rightarrow> nat \<Rightarrow> 'a option list" where
  "remove_nil tasks i =
     (if i < length tasks then
        (if tasks ! i = None then remove_nil (take i tasks @ drop (i + 1) tasks) i
         else remove_nil tasks (i + 1))
      else tasks)"
  by pat_completeness auto
termination
  by (relation "measure (\<lambda>(tasks, i). 2 * length tasks - i)") auto

declare remove_nil.simps [simp del]

text \<open>The second loop: adjacent pairs from \<^verbatim>\<open>i\<close> on.\<close>

function range_pairs :: "string \<Rightarrow> 's Task list \<Rightarrow> nat \<Rightarrow> nat \<Rightarrow> goerr option" where
  "range_pairs name tasks n i =
     (if i < n then
        (let prev = tasks ! (i - 1); curr = tasks ! i
         in case verifyTaskCompatibility prev curr of
              Some err \<Rightarrow>
                Some (WrapError (''failed to create task '' @ [CHR 0x27] @ name @ [CHR 0x27]
                        @ '': '' @ fmt_w err) err)
            | None \<Rightarrow> range_pairs name tasks n (i + 1))
      else None)"
  by pat_completeness auto
termination
  by (relation "measure (\<lambda>(name, tasks, n, i). n - i)") auto

declare range_pairs.simps [simp del]

definition NewTaskChain :: "gotype \<Rightarrow> 's TaskChainConfig \<Rightarrow> goerr + 's TaskChain" where
  "NewTaskChain T config =
     (let tasks = map the (remove_nil (ccTasks config) 0); n = length tasks
      in if n = 0 then
           Inr \<lparr> Tasks = [], chainCleanup = None, chainName = [], hasOutput = False,
                 ResultType = T \<rparr>
         else case range_pairs (ccName config) tasks n 1 of
                Some err \<Rightarrow> Inl err
              | None \<Rightarrow>
                  (let last_task = tasks ! (n - 1);
                       hasLastTaskOut = (length (ReturnValueTypes last_task) > 0)
                   in (case verifyReturnType T (tasks ! (n - 1)) of
                         Some err \<Rightarrow>
                           Inl (WrapError (''failed to create task '' @ [CHR 0x27] @ ccName config
                                  @ [CHR 0x27] @ '': '' @ fmt_w err) err)
                       | None \<Rightarrow>
                           Inr \<lparr> Tasks = tasks, chainCleanup = ccCleanup config,
                                 chainName = ccName config, hasOutput = hasLastTaskOut,
                                 ResultType = T \<rparr>)))"

text \<open>
  A \<^verbatim>\<open>context.Context\<close>: \<open>None\<close> is the nil context; otherwise \<^verbatim>\<open>ctx.Err()\<close> is read
  from the program state, which a task may change (by cancelling, or by letting
  time pass).
\<close>

type_synonym 's Context = "('s \<Rightarrow> goerr option) option"

fun ctx_Err :: "'s Context \<Rightarrow> 's \<Rightarrow> goerr option" where
  "ctx_Err None s = None"
| "ctx_Err (Some err) s = err s"

text \<open>\<^verbatim>\<open>TaskChain.doCleanup\<close>.\<close>

definition Chain_doCleanup ::
  "'s TaskChain \<Rightarrow> goval \<Rightarrow> goerr option \<Rightarrow> 's world \<Rightarrow> (goval \<times> goerr option) \<times> 's world" where
  "Chain_doCleanup tc v err w =
     (case chainCleanup tc of
        None \<Rightarrow> ((v, err), w)
      | Some c \<Rightarrow>
          (case c (ustate w) of
             (e, s') \<Rightarrow>
               let w' = w\<lparr>ustate := s', trace := trace w @ [EvChainCleanup (chainName tc)]\<rparr>
               in if e \<noteq> None then ((v, errors_Join [e, err]), w') else ((v, err), w')))"

text \<open>A \<^verbatim>\<open>return\<close> of \<^verbatim>\<open>Run\<close> through \<^verbatim>\<open>tc.doCleanup\<close>.\<close>

definition return_doCleanup ::
  "'s TaskChain \<Rightarrow> goval \<Rightarrow> goerr option \<Rightarrow> 's world \<Rightarrow> (goval \<times> goerr option) outcome \<times> 's world" where
  "return_doCleanup tc v err w = (case Chain_doCleanup tc v err w of (r, w') \<Rightarrow> (Ok r, w'))"

text \<open>
  The loop of \<^verbatim>\<open>Run\<close> over the tasks from index \<^verbatim>\<open>i\<close> on, with the code that
  follows the loop as the case of no task left.
\<close>

fun range_Tasks ::
  "'s TaskChain \<Rightarrow> 's Context \<Rightarrow> nat \<Rightarrow> 's Task list \<Rightarrow> rvalue list \<Rightarrow> 's world
     \<Rightarrow> (goval \<times> goerr option) outcome \<times> 's world" where
  "range_Tasks tc ctx i [] currentResults w =
     (if length currentResults = 0 then return_doCleanup tc (Zero (ResultType tc)) None w
      else case Interface (last currentResults) of
             Panic p \<Rightarrow> (Panic p, w)
           | Ok x \<Rightarrow>
               (case type_assert x (ResultType tc) of
                  Panic p \<Rightarrow> (Panic p, w)
                | Ok v \<Rightarrow> return_doCleanup tc v None w))"
| "range_Tasks tc ctx i (t # ts) currentResults w =
     (if ctx \<noteq> None \<and> ctx_Err ctx (ustate w) \<noteq> None then
        return_doCleanup tc (Zero (ResultType tc)) (ctx_Err ctx (ustate w)) w
      else case Task_Run t currentResults w of
             (Panic p, w') \<Rightarrow> (Panic p, w')
           | (Ok (res, Some err), w') \<Rightarrow>
               return_doCleanup tc (Zero (ResultType tc))
                 (Some (WrapError (''error running task '' @ decimal i @ '': '' @ fmt_w err) err)) w'
           | (Ok (res, None), w') \<Rightarrow> range_Tasks tc ctx (i + 1) ts res w')"

definition Run ::
  "'s TaskChain \<Rightarrow> 's Context \<Rightarrow> goval list \<Rightarrow> 's world
     \<Rightarrow> (goval \<times> goerr option) outcome \<times> 's world" where
  "Run tc ctx ps w =
     (if length (Tasks tc) = 0 then return_doCleanup tc (Zero (ResultType tc)) None w
      else case verifyInitialParams (fnType (Fn (Tasks tc ! 0))) ps of
             Panic p \<Rightarrow> (Panic p, w)
           | Ok (Some err) \<Rightarrow>
               return_doCleanup tc (Zero (ResultType tc))
                 (Some (WrapError (''error running '' @ chainName tc @ '': '' @ fmt_w err) err)) w
           | Ok None \<Rightarrow> range_Tasks tc ctx 0 (Tasks tc) (map ValueOf ps) w)"

text \<open>
  How far the loop of \<^verbatim>\<open>Run\<close> gets: the values and the state with which it arrives
  behind the tasks given, when no check of the context and no task among them
  ended the run. The equations are those of \<open>range_Tasks\<close>.
\<close>

fun loop_passes ::
  "'s Context \<Rightarrow> 's Task list \<Rightarrow> rvalue list \<Rightarrow> 's world \<Rightarrow> (rvalue list \<times> 's world) option" where
  "loop_passes ctx [] currentResults w = Some (currentResults, w)"
| "loop_passes ctx (t # ts) currentResults w =
     (if ctx \<noteq> None \<and> ctx_Err ctx (ustate w) \<noteq> None then None
      else case Task_Run t currentResults w of
             (Ok (res, None), w') \<Rightarrow> loop_passes ctx ts res w'
           | _ \<Rightarrow> None)"



section \<open>The tasks and chains of the tests\<close>

text \<open>
  \<^verbatim>\<open>strconv.Atoi\<close> on decimal digits with an optional sign. The quoting of the input
  in the error text is plain.
\<close>

fun digits_value :: "string \<Rightarrow> int \<Rightarrow> int option" where
  "digits_value [] n = Some n"
| "digits_value (ch # cs) n =
     (if (48::int) \<le> of_char ch \<and> (of_char ch :: int) \<le> 57 then
        digits_value cs (n * 10 + (of_char ch - 48))
      else None)"

definition NumError :: "string \<Rightarrow> string \<Rightarrow> goerr" where
  "NumError s what = CustomError ''*strconv.NumError''
     (''strconv.Atoi: parsing '' @ [CHR 0x22] @ s @ [CHR 0x22] @ '': '' @ what)"

definition Atoi :: "string \<Rightarrow> 64 word \<times> goerr option" where
  "Atoi s =
     (case s of
        [] \<Rightarrow> (0, Some (NumError s ''invalid syntax''))
      | c # cs \<Rightarrow>
          (let neg = (c = CHR ''-''); ds = (if c = CHR ''-'' \<or> c = CHR ''+'' then cs else s)
           in if ds = [] then (0, Some (NumError s ''invalid syntax''))
              else (case digits_value ds 0 of
                      None \<Rightarrow> (0, Some (NumError s ''invalid syntax''))
                    | Some n \<Rightarrow>
                        if neg then
                          (if n > 2 ^ 63 then
                             (word_of_int (- (2 ^ 63)), Some (NumError s ''value out of range''))
                           else (word_of_int (- n), None))
                        else
                          (if n \<ge> 2 ^ 63 then
                             (word_of_int (2 ^ 63 - 1), Some (NumError s ''value out of range''))
                           else (word_of_int n, None)))))"

fun error_value :: "goerr option \<Rightarrow> goval" where
  "error_value None = VNil"
| "error_value (Some e) = VError e"

text \<open>\<^verbatim>\<open>func(s string) (int, error) { return strconv.Atoi(s) }\<close>\<close>

definition first_fn :: "'s gofunc" where
  "first_fn =
     \<lparr> fnType = \<lparr> params = [TString], results = [TInt, error_type] \<rparr>,
       body = (\<lambda>args s. case args of
                 [VString str] \<Rightarrow> (case Atoi str of (n, err) \<Rightarrow> (Ok [VInt n, error_value err], s))
               | _ \<Rightarrow> (Panic CallArguments, s)) \<rparr>"

text \<open>\<^verbatim>\<open>func(n int) int { return n * 10 }\<close>\<close>

definition second_fn :: "'s gofunc" where
  "second_fn =
     \<lparr> fnType = \<lparr> params = [TInt], results = [TInt] \<rparr>,
       body = (\<lambda>args s. case args of
                 [VInt n] \<Rightarrow> (Ok [VInt (n * 10)], s)
               | _ \<Rightarrow> (Panic CallArguments, s)) \<rparr>"

definition first_cfg :: "'s TaskConfig" where
  "first_cfg = \<lparr> cfgName = ''first'', cfgCleanup = None, cfgFn = FnFunc first_fn \<rparr>"

definition second_cfg :: "'s TaskConfig" where
  "second_cfg = \<lparr> cfgName = ''second'', cfgCleanup = None, cfgFn = FnFunc second_fn \<rparr>"

definition first_task :: "'s Task" where
  "first_task = \<lparr> Name = ''first'', Fn = first_fn, ReturnValueTypes = [TInt],
                  hasErrorOut = True, Cleanup = None \<rparr>"

definition second_task :: "'s Task" where
  "second_task = \<lparr> Name = ''second'', Fn = second_fn, ReturnValueTypes = [TInt],
                   hasErrorOut = False, Cleanup = None \<rparr>"

definition test_chain_cfg :: "'s cleanup option \<Rightarrow> 's Task list \<Rightarrow> 's TaskChainConfig" where
  "test_chain_cfg cu ts = \<lparr> ccName = ''test_chain'', ccCleanup = cu, ccTasks = map Some ts \<rparr>"

definition test_chain :: "gotype \<Rightarrow> 's cleanup option \<Rightarrow> 's Task list \<Rightarrow> bool \<Rightarrow> 's TaskChain" where
  "test_chain T cu ts out =
     \<lparr> Tasks = ts, chainCleanup = cu, chainName = ''test_chain'', hasOutput = out, ResultType = T \<rparr>"

text \<open>\<^verbatim>\<open>func() error { return cleanupErr }\<close> as a cleanup.\<close>

definition failing_cleanup :: "'s cleanup" where
  "failing_cleanup = (\<lambda>s. (Some (ErrorString ''Cleanup error''), s))"

text \<open>A producer \<^verbatim>\<open>func() int\<close> and a consumer \<^verbatim>\<open>func(x interface{})\<close>.\<close>

definition producer_fn :: "'s gofunc" where
  "producer_fn =
     \<lparr> fnType = \<lparr> params = [], results = [TInt] \<rparr>,
       body = (\<lambda>args s. (Ok [VInt 0], s)) \<rparr>"

definition consumer_fn :: "'s gofunc" where
  "consumer_fn =
     \<lparr> fnType = \<lparr> params = [any_type], results = [] \<rparr>,
       body = (\<lambda>args s. (Ok [], s)) \<rparr>"

definition producer_task :: "'s Task" where
  "producer_task = \<lparr> Name = ''producer'', Fn = producer_fn, ReturnValueTypes = [TInt],
                     hasErrorOut = False, Cleanup = None \<rparr>"

definition consumer_task :: "'s Task" where
  "consumer_task = \<lparr> Name = ''consumer'', Fn = consumer_fn, ReturnValueTypes = [],
                     hasErrorOut = False, Cleanup = None \<rparr>"










text \<open>A producer \<^verbatim>\<open>func() interface{} { return "x" }\<close>.\<close>

definition any_producer_fn :: "'s gofunc" where
  "any_producer_fn =
     \<lparr> fnType = \<lparr> params = [], results = [any_type] \<rparr>,
       body = (\<lambda>args s. (Ok [VString ''x''], s)) \<rparr>"

definition any_producer_task :: "'s Task" where
  "any_producer_task = \<lparr> Name = ''producer'', Fn = any_producer_fn, ReturnValueTypes = [any_type],
                         hasErrorOut = False, Cleanup = None \<rparr>"

section \<open>Properties\<close>

subsection \<open>Task construction\<close>

lemma fill_types_map: "fill_types fn n i = map (Out fn) [i..<n]"
proof (induction fn n i rule: fill_types.induct)
  case (1 fn n i)
  show ?case
  proof (cases "i < n")
    case True
    then have "fill_types fn n i = Out fn i # map (Out fn) [Suc i..<n]"
      using 1 by (simp add: fill_types.simps [of fn n i])
    then show ?thesis using True by (simp add: upt_conv_Cons)
  next
    case False
    then show ?thesis by (simp add: fill_types.simps [of fn n i])
  qed
qed

lemma fill_types_take: "n \<le> NumOut fn \<Longrightarrow> fill_types fn n 0 = take n (results fn)"
  by (auto simp: fill_types_map NumOut_def Out_def intro!: nth_equalityI)

lemma getReturnValueTypes_take:
  "getReturnValueTypes fn b = take (NumOut fn - (if b then 1 else 0)) (results fn)"
  by (simp add: getReturnValueTypes_def fill_types_take Let_def NumOut_def)

lemma hasErrorOut_of_last:
  "hasErrorOut_of fn = (results fn \<noteq> [] \<and> AssignableTo (last (results fn)) error_type)"
  by (auto simp: hasErrorOut_of_def NumOut_def Out_def last_conv_nth)

lemma NewTask_first: "NewTask first_cfg = Inr first_task"
  by (simp add: NewTask_def first_cfg_def first_task_def first_fn_def hasErrorOut_of_last
      getReturnValueTypes_take NumOut_def AssignableTo_def error_type_def)

lemma NewTask_second: "NewTask second_cfg = Inr second_task"
  by (simp add: NewTask_def second_cfg_def second_task_def second_fn_def hasErrorOut_of_last
      getReturnValueTypes_take NumOut_def AssignableTo_def error_type_def implements_def)

text \<open>
  C7. A task that \<^verbatim>\<open>NewTask\<close> returns wraps the function of the configuration;
  its \<^verbatim>\<open>hasErrorOut\<close> holds exactly when the function declares an output and the last
  declared output type is assignable to \<^verbatim>\<open>error\<close>; \<^verbatim>\<open>ReturnValueTypes\<close> has one
  entry less than the function has outputs when \<^verbatim>\<open>hasErrorOut\<close> holds and as many
  otherwise, and it is the leading output types in the order of declaration.
\<close>

theorem NewTask_signature:
  assumes "NewTask config = Inr t"
  shows "cfgFn config = FnFunc (Fn t)
       \<and> (hasErrorOut t \<longleftrightarrow>
            NumOut (fnType (Fn t)) > 0 \<and> AssignableTo (last (results (fnType (Fn t)))) error_type)
       \<and> length (ReturnValueTypes t) = NumOut (fnType (Fn t)) - (if hasErrorOut t then 1 else 0)
       \<and> ReturnValueTypes t = take (length (ReturnValueTypes t)) (results (fnType (Fn t)))"
proof -
  from assms obtain f where f: "cfgFn config = FnFunc f"
    by (cases "cfgFn config") (auto simp: NewTask_def split: if_splits)
  with assms have t: "t = \<lparr> Name = cfgName config, Fn = f,
        ReturnValueTypes = getReturnValueTypes (fnType f) (hasErrorOut_of (fnType f)),
        hasErrorOut = hasErrorOut_of (fnType f), Cleanup = cfgCleanup config \<rparr>"
    by (simp add: NewTask_def Let_def)
  show ?thesis
    unfolding t using f
    by (auto simp: getReturnValueTypes_take hasErrorOut_of_last NumOut_def)
qed

theorem NewTask_signature_witness:
  "NewTask (first_cfg :: unit TaskConfig) = Inr first_task
   \<and> hasErrorOut (first_task :: unit Task)
   \<and> length (ReturnValueTypes (first_task :: unit Task)) = 1
   \<and> ReturnValueTypes (first_task :: unit Task) = [TInt]"
  using NewTask_signature [OF NewTask_first, where ?'a = unit]
  by (simp add: NewTask_first first_task_def first_fn_def NumOut_def)

subsection \<open>Chains without tasks\<close>

lemma remove_nil_filter:
  "remove_nil tasks i = take i tasks @ filter (\<lambda>t. t \<noteq> None) (drop i tasks)"
proof (induction tasks i rule: remove_nil.induct)
  case (1 tasks i)
  show ?case
  proof (cases "i < length tasks")
    case False
    then show ?thesis by (simp add: remove_nil.simps [of tasks i])
  next
    case True
    then have d: "drop i tasks = tasks ! i # drop (Suc i) tasks"
      by (simp add: Cons_nth_drop_Suc)
    show ?thesis
    proof (cases "tasks ! i = None")
      case None: True
      have "remove_nil tasks i = remove_nil (take i tasks @ drop (i + 1) tasks) i"
        using \<open>i < length tasks\<close> None by (subst remove_nil.simps) auto
      also have "\<dots> = take i tasks @ filter (\<lambda>t. t \<noteq> None) (drop (Suc i) tasks)"
        using "1.IH"(1) [OF \<open>i < length tasks\<close> None] \<open>i < length tasks\<close>
        by (simp add: min_def)
      finally show ?thesis using None d by simp
    next
      case Some: False
      have "remove_nil tasks i = remove_nil tasks (i + 1)"
        using \<open>i < length tasks\<close> Some by (subst remove_nil.simps) auto
      also have "\<dots> = take (Suc i) tasks @ filter (\<lambda>t. t \<noteq> None) (drop (Suc i) tasks)"
        using "1.IH"(2) [OF \<open>i < length tasks\<close> Some] by simp
      finally show ?thesis
        using Some d \<open>i < length tasks\<close> by (simp add: take_Suc_conv_app_nth)
    qed
  qed
qed

lemma remove_nil_0: "remove_nil tasks 0 = filter (\<lambda>t. t \<noteq> None) tasks"
  by (simp add: remove_nil_filter)

lemma remove_nil_map_Some: "map the (remove_nil (map Some ts) 0) = ts"
  by (simp add: remove_nil_0 comp_def)

lemma return_doCleanup_None:
  "chainCleanup tc = None \<Longrightarrow> return_doCleanup tc v err w = (Ok (v, err), w)"
  by (simp add: return_doCleanup_def Chain_doCleanup_def)

text \<open>
  C5. When nothing is left of the configured tasks once the nil entries are gone,
  \<^verbatim>\<open>NewTaskChain\<close> returns a chain, and \<^verbatim>\<open>Run\<close> on it, with any context and any
  arguments, returns the zero value of \<^verbatim>\<open>T\<close> and no error (and changes nothing).
\<close>

theorem Run_no_tasks:
  assumes "filter (\<lambda>t. t \<noteq> None) (ccTasks config) = []"
  shows "\<exists>tc. NewTaskChain T config = Inr tc \<and> Tasks tc = []
            \<and> Run tc ctx ps w = (Ok (Zero T, None), w)"
  using assms
  by (simp add: NewTaskChain_def remove_nil_0 Run_def return_doCleanup_None)

theorem Run_no_tasks_witness:
  "filter (\<lambda>t. t \<noteq> None) (ccTasks \<lparr> ccName = [], ccCleanup = Some failing_cleanup,
       ccTasks = [None, None, None :: unit Task option] \<rparr>) = []
   \<and> (\<exists>tc. NewTaskChain any_type \<lparr> ccName = [], ccCleanup = Some failing_cleanup,
              ccTasks = [None, None, None :: unit Task option] \<rparr> = Inr tc
         \<and> Tasks tc = []
         \<and> Run tc None [VInt 1, VNil] \<lparr> ustate = (), trace = [] \<rparr>
             = (Ok (VNil, None), \<lparr> ustate = (), trace = [] \<rparr>))"
  using Run_no_tasks [of "\<lparr> ccName = [], ccCleanup = Some failing_cleanup,
       ccTasks = [None, None, None :: unit Task option] \<rparr>" any_type None "[VInt 1, VNil]"
       "\<lparr> ustate = (), trace = [] \<rparr>"]
  by (simp add: any_type_def)

subsection \<open>The pipeline of two tasks\<close>

lemma AssignableTo_simps:
  "AssignableTo TInt TInt" "AssignableTo TString TString"
  "AssignableTo error_type error_type" "AssignableTo TInt any_type"
  "\<not> AssignableTo any_type TInt" "\<not> AssignableTo TInt error_type"
  "\<not> AssignableTo error_type TInt" "\<not> AssignableTo TInt TString"
  by (simp_all add: AssignableTo_def implements_def error_type_def any_type_def)

lemma test_chain_cfg_fields:
  "ccName (test_chain_cfg cu ts) = ''test_chain''"
  "ccCleanup (test_chain_cfg cu ts) = cu"
  "map the (remove_nil (ccTasks (test_chain_cfg cu ts)) 0) = ts"
  by (simp_all add: test_chain_cfg_def remove_nil_map_Some)

lemma test_chain_fields:
  "Tasks (test_chain T cu ts out) = ts"
  "chainCleanup (test_chain T cu ts out) = cu"
  "chainName (test_chain T cu ts out) = ''test_chain''"
  "ResultType (test_chain T cu ts out) = T"
  by (simp_all add: test_chain_def)

lemma verifyTaskCompatibility_first_second:
  "verifyTaskCompatibility first_task second_task = None"
  by (simp add: verifyTaskCompatibility_def range_ReturnValueTypes.simps [of _ _ 0]
      range_ReturnValueTypes.simps [of _ _ "Suc 0"]
      first_task_def second_task_def second_fn_def NumIn_def In_def AssignableTo_simps)

lemma verifyReturnType_second: "verifyReturnType TInt second_task = None"
  by (simp add: verifyReturnType_def second_task_def second_fn_def NumOut_def Out_def
      AssignableTo_simps)

lemma NewTaskChain_nonempty:
  assumes "map the (remove_nil (ccTasks config) 0) = ts" and "ts \<noteq> []"
  shows "NewTaskChain T config =
     (case range_pairs (ccName config) ts (length ts) 1 of
        Some err \<Rightarrow> Inl err
      | None \<Rightarrow>
          (case verifyReturnType T (last ts) of
             Some err \<Rightarrow>
               Inl (WrapError (''failed to create task '' @ [CHR 0x27] @ ccName config
                      @ [CHR 0x27] @ '': '' @ fmt_w err) err)
           | None \<Rightarrow>
               Inr \<lparr> Tasks = ts, chainCleanup = ccCleanup config, chainName = ccName config,
                     hasOutput = (ReturnValueTypes (last ts) \<noteq> []), ResultType = T \<rparr>))"
  using assms by (simp add: NewTaskChain_def Let_def last_conv_nth split: option.splits)

lemma range_pairs_first_second:
  "range_pairs n [first_task, second_task] (Suc (Suc 0)) (Suc 0) = None"
  by (simp add: range_pairs.simps [of _ _ _ "Suc 0"] range_pairs.simps [of _ _ _ "Suc (Suc 0)"]
      verifyTaskCompatibility_first_second)

lemma NewTaskChain_test_chain:
  "NewTaskChain TInt (test_chain_cfg cu [first_task, second_task])
     = Inr (test_chain TInt cu [first_task, second_task] True)"
proof -
  have "ReturnValueTypes (second_task :: 'a Task) \<noteq> []"
    by (simp add: second_task_def)
  then show ?thesis
    by (simp add: NewTaskChain_nonempty [where ts = "[first_task, second_task]"]
        test_chain_cfg_fields range_pairs_first_second verifyReturnType_second test_chain_def)
qed

lemma Atoi_10: "Atoi ''10'' = (10, None)"
  by (simp add: Atoi_def)

lemma Task_Run_first:
  "Task_Run first_task [RV TString (VString ''10'')] w
     = (Ok ([RV TInt (VInt 10)], None), w\<lparr>trace := trace w @ [EvCall ''first'']\<rparr>)"
  by (simp add: Task_Run_def Call_def first_task_def first_fn_def NumIn_def AssignableTo_simps
      Atoi_10 Task_doCleanup_def)

lemma Task_Run_second:
  "Task_Run second_task [RV TInt (VInt 10)] w
     = (Ok ([RV TInt (VInt 100)], None), w\<lparr>trace := trace w @ [EvCall ''second'']\<rparr>)"
  by (simp add: Task_Run_def Call_def second_task_def second_fn_def NumIn_def AssignableTo_simps
      Task_doCleanup_def)

lemma verifyInitialParams_first:
  "verifyInitialParams (fnType (Fn first_task)) [VString ''10''] = Ok None"
  by (simp add: verifyInitialParams_def range_params.simps [of _ _ 0]
      range_params.simps [of _ _ "Suc 0"] first_task_def first_fn_def NumIn_def In_def
      AssignableTo_simps)

lemma Run_test_chain:
  assumes "ctx_Err ctx = (\<lambda>s. None)"
  shows "Run (test_chain T cu [first_task, second_task] True) ctx [VString ''10''] w
     = (case type_assert (VInt 100) T of
          Panic p \<Rightarrow> (Panic p, w\<lparr>trace := trace w @ [EvCall ''first'', EvCall ''second'']\<rparr>)
        | Ok v \<Rightarrow>
           return_doCleanup (test_chain T cu [first_task, second_task] True) v None
             (w\<lparr>trace := trace w @ [EvCall ''first'', EvCall ''second'']\<rparr>))"
  using assms
  by (simp add: Run_def test_chain_fields verifyInitialParams_first Task_Run_first Task_Run_second
      split: outcome.splits)

lemma ctx_Err_never:
  "ctx_Err None = (\<lambda>s. None)" "ctx_Err (Some (\<lambda>s. None)) = (\<lambda>s. None)"
  by (simp_all add: fun_eq_iff)

text \<open>
  C8. Task A parses a string to an int, task B multiplies an int by 10. Both are
  what \<^verbatim>\<open>NewTask\<close> makes of their configurations, the chain with result type
  \<^verbatim>\<open>int\<close> is what \<^verbatim>\<open>NewTaskChain\<close> makes of the two, and \<^verbatim>\<open>Run(ctx, "10")\<close> returns
  \<^verbatim>\<open>(100, nil)\<close> after one call of each task, with the nil context and with a
  context that carries no error.
\<close>

theorem Run_first_second:
  "NewTask first_cfg = Inr first_task \<and> NewTask second_cfg = Inr second_task
   \<and> NewTaskChain TInt (test_chain_cfg None [first_task, second_task])
        = Inr (test_chain TInt None [first_task, second_task] True)
   \<and> Run (test_chain TInt None [first_task, second_task] True) None [VString ''10''] w
        = (Ok (VInt 100, None), w\<lparr>trace := trace w @ [EvCall ''first'', EvCall ''second'']\<rparr>)
   \<and> Run (test_chain TInt None [first_task, second_task] True) (Some (\<lambda>s. None)) [VString ''10''] w
        = (Ok (VInt 100, None), w\<lparr>trace := trace w @ [EvCall ''first'', EvCall ''second'']\<rparr>)"
  by (simp add: NewTask_first NewTask_second NewTaskChain_test_chain Run_test_chain ctx_Err_never
      return_doCleanup_None test_chain_fields type_assert_def)

subsection \<open>A nil argument\<close>

lemma range_params_nil:
  assumes "j < length ps" and "ps ! j = VNil"
    and "\<forall>k. i \<le> k \<and> k < j \<longrightarrow> (\<exists>a. TypeOf (ps ! k) = Some a \<and> AssignableTo a (In fn k))"
    and "i \<le> j"
  shows "range_params fn ps i = Panic NilDereference"
  using assms(3,4)
proof (induction "j - i" arbitrary: i)
  case 0
  then have "i = j" by simp
  then show ?case
    using assms(1,2) by (subst range_params.simps) simp
next
  case (Suc d)
  then have lt: "i < j" and d: "d = j - (i + 1)" by simp_all
  from Suc.prems lt obtain a where a: "TypeOf (ps ! i) = Some a" "AssignableTo a (In fn i)"
    by auto
  have "range_params fn ps (i + 1) = Panic NilDereference"
    using Suc.hyps(1) [OF d] Suc.prems lt by simp
  then show ?case
    using a lt assms(1) by (subst range_params.simps) simp
qed

text \<open>
  C10. There are inputs on which \<^verbatim>\<open>Run\<close> does not return. When the chain has a
  task, the number of arguments is right and an argument is nil, with every argument
  before it of an assignable type, \<^verbatim>\<open>verifyInitialParams\<close> calls \<^verbatim>\<open>AssignableTo\<close> on
  the nil type of that argument: \<^verbatim>\<open>Run\<close> panics, no error is returned and no cleanup
  runs.
\<close>

theorem Run_nil_argument_panics:
  assumes "Tasks tc \<noteq> []"
    and "length ps = NumIn (fnType (Fn (Tasks tc ! 0)))"
    and "j < length ps" and "ps ! j = VNil"
    and "\<forall>k<j. \<exists>a. TypeOf (ps ! k) = Some a \<and> AssignableTo a (In (fnType (Fn (Tasks tc ! 0))) k)"
  shows "Run tc ctx ps w = (Panic NilDereference, w)"
proof -
  have "range_params (fnType (Fn (Tasks tc ! 0))) ps 0 = Panic NilDereference"
    using assms(3,4,5) by (intro range_params_nil [where j = j]) auto
  then show ?thesis
    using assms(1,2) by (simp add: Run_def verifyInitialParams_def)
qed

theorem Run_nil_argument_panics_witness:
  "Tasks (test_chain TInt (Some failing_cleanup) [first_task, second_task :: unit Task] True) \<noteq> []
   \<and> length [VNil] = NumIn (fnType (Fn (first_task :: unit Task)))
   \<and> Run (test_chain TInt (Some failing_cleanup) [first_task, second_task] True) None [VNil]
        \<lparr> ustate = (), trace = [] \<rparr>
      = (Panic NilDereference, \<lparr> ustate = (), trace = [] \<rparr>)"
  using Run_nil_argument_panics [of "test_chain TInt (Some failing_cleanup) [first_task, second_task] True"
      "[VNil]" 0 None "\<lparr> ustate = (), trace = [] \<rparr>"]
  by (simp add: test_chain_fields first_task_def first_fn_def NumIn_def)

subsection \<open>Compatibility of adjacent tasks\<close>

lemma errors_Join_two [simp]:
  "errors_Join [Some a, Some b] = Some (JoinError [a, b])"
  "errors_Join [Some a, None] = Some (JoinError [a])"
  by (simp_all add: errors_Join_def List.map_filter_simps)

lemma errors_Is_refl [simp]: "errors_Is e e"
  by (cases e) simp_all

lemma range_ReturnValueTypes_None_iff:
  "range_ReturnValueTypes pt ct i = None \<longleftrightarrow>
     (\<forall>k. i \<le> k \<and> k < length (ReturnValueTypes pt) \<longrightarrow>
        AssignableTo (In (fnType (Fn ct)) k) (ReturnValueTypes pt ! k))"
proof (induction pt ct i rule: range_ReturnValueTypes.induct)
  case (1 pt ct i)
  show ?case
  proof (cases "i < length (ReturnValueTypes pt)")
    case False
    then show ?thesis by (subst range_ReturnValueTypes.simps) auto
  next
    case True
    show ?thesis
    proof (cases "AssignableTo (In (fnType (Fn ct)) i) (ReturnValueTypes pt ! i)")
      case False
      with True show ?thesis
        by (subst range_ReturnValueTypes.simps) auto
    next
      case ok: True
      have "range_ReturnValueTypes pt ct i = range_ReturnValueTypes pt ct (i + 1)"
        using True ok by (subst range_ReturnValueTypes.simps) simp
      also have "\<dots> = None \<longleftrightarrow>
          (\<forall>k. i + 1 \<le> k \<and> k < length (ReturnValueTypes pt) \<longrightarrow>
             AssignableTo (In (fnType (Fn ct)) k) (ReturnValueTypes pt ! k))"
        using "1.IH" True ok by simp
      also have "\<dots> \<longleftrightarrow>
          (\<forall>k. i \<le> k \<and> k < length (ReturnValueTypes pt) \<longrightarrow>
             AssignableTo (In (fnType (Fn ct)) k) (ReturnValueTypes pt ! k))"
      proof (intro iffI allI impI)
        fix k assume h: "\<forall>k. i + 1 \<le> k \<and> k < length (ReturnValueTypes pt) \<longrightarrow>
             AssignableTo (In (fnType (Fn ct)) k) (ReturnValueTypes pt ! k)"
          and k: "i \<le> k \<and> k < length (ReturnValueTypes pt)"
        show "AssignableTo (In (fnType (Fn ct)) k) (ReturnValueTypes pt ! k)"
        proof (cases "k = i")
          case True
          then show ?thesis using ok by simp
        next
          case False
          then have "i + 1 \<le> k" using k by simp
          then show ?thesis using h k by blast
        qed
      next
        fix k assume h: "\<forall>k. i \<le> k \<and> k < length (ReturnValueTypes pt) \<longrightarrow>
             AssignableTo (In (fnType (Fn ct)) k) (ReturnValueTypes pt ! k)"
          and k: "i + 1 \<le> k \<and> k < length (ReturnValueTypes pt)"
        then have "i \<le> k" by simp
        then show "AssignableTo (In (fnType (Fn ct)) k) (ReturnValueTypes pt ! k)"
          using h k by blast
      qed
      finally show ?thesis .
    qed
  qed
qed

text \<open>What the code checks: the consumer's ct type against the producer's pt type.\<close>

lemma verifyTaskCompatibility_None_iff:
  "verifyTaskCompatibility pt ct = None \<longleftrightarrow>
     length (ReturnValueTypes pt) = NumIn (fnType (Fn ct))
     \<and> (\<forall>k < length (ReturnValueTypes pt).
          AssignableTo (In (fnType (Fn ct)) k) (ReturnValueTypes pt ! k))"
  by (simp add: verifyTaskCompatibility_def range_ReturnValueTypes_None_iff)

lemma range_ReturnValueTypes_Some:
  assumes "range_ReturnValueTypes pt ct i = Some err"
  shows "\<exists>k. i \<le> k \<and> k < length (ReturnValueTypes pt)
           \<and> \<not> AssignableTo (In (fnType (Fn ct)) k) (ReturnValueTypes pt ! k)
           \<and> err = JoinError [IncompatibleFunctionSignatureErr,
                 ErrorString (''between '' @ Name pt @ '' and '' @ Name ct @ '': ''
                   @ type_String (ReturnValueTypes pt ! k) @ '' is not assignable to ''
                   @ type_String (In (fnType (Fn ct)) k))]"
  using assms
proof (induction pt ct i rule: range_ReturnValueTypes.induct)
  case (1 pt ct i)
  from "1.prems" have lt: "i < length (ReturnValueTypes pt)"
    by (subst (asm) range_ReturnValueTypes.simps) (auto split: if_splits)
  show ?case
  proof (cases "AssignableTo (In (fnType (Fn ct)) i) (ReturnValueTypes pt ! i)")
    case False
    with "1.prems" lt have "err = JoinError [IncompatibleFunctionSignatureErr,
                 ErrorString (''between '' @ Name pt @ '' and '' @ Name ct @ '': ''
                   @ type_String (ReturnValueTypes pt ! i) @ '' is not assignable to ''
                   @ type_String (In (fnType (Fn ct)) i))]"
      by (subst (asm) range_ReturnValueTypes.simps) auto
    with False lt show ?thesis by blast
  next
    case True
    with "1.prems" lt have "range_ReturnValueTypes pt ct (i + 1) = Some err"
      by (subst (asm) range_ReturnValueTypes.simps) auto
    from "1.IH" [OF lt _ this] True obtain k where "i + 1 \<le> k" "k < length (ReturnValueTypes pt)"
      "\<not> AssignableTo (In (fnType (Fn ct)) k) (ReturnValueTypes pt ! k)"
      "err = JoinError [IncompatibleFunctionSignatureErr,
                 ErrorString (''between '' @ Name pt @ '' and '' @ Name ct @ '': ''
                   @ type_String (ReturnValueTypes pt ! k) @ '' is not assignable to ''
                   @ type_String (In (fnType (Fn ct)) k))]"
      by auto
    then show ?thesis by (intro exI [of _ k]) simp
  qed
qed

text \<open>
  What the code keeps of the claim: a failure of \<^verbatim>\<open>verifyTaskCompatibility\<close> is the
  incompatible-signature error, and when the counts agree its message holds the names
  of both tasks and of both types at the position that failed.
\<close>

lemma verifyTaskCompatibility_message:
  assumes "verifyTaskCompatibility pt ct = Some err"
    and "length (ReturnValueTypes pt) = NumIn (fnType (Fn ct))"
  shows "errors_Is err IncompatibleFunctionSignatureErr
       \<and> (\<exists>k < length (ReturnValueTypes pt). \<exists>msg.
             \<not> AssignableTo (In (fnType (Fn ct)) k) (ReturnValueTypes pt ! k)
             \<and> Error err = Some msg
             \<and> sublist (Name pt) msg \<and> sublist (Name ct) msg
             \<and> sublist (type_String (ReturnValueTypes pt ! k)) msg
             \<and> sublist (type_String (In (fnType (Fn ct)) k)) msg)"
proof -
  from assms have "range_ReturnValueTypes pt ct 0 = Some err"
    by (simp add: verifyTaskCompatibility_def)
  from range_ReturnValueTypes_Some [OF this] obtain k where k: "k < length (ReturnValueTypes pt)"
    "\<not> AssignableTo (In (fnType (Fn ct)) k) (ReturnValueTypes pt ! k)"
    and err: "err = JoinError [IncompatibleFunctionSignatureErr,
                 ErrorString (''between '' @ Name pt @ '' and '' @ Name ct @ '': ''
                   @ type_String (ReturnValueTypes pt ! k) @ '' is not assignable to ''
                   @ type_String (In (fnType (Fn ct)) k))]"
    by blast
  define a where "a = type_String (ReturnValueTypes pt ! k)"
  define b where "b = type_String (In (fnType (Fn ct)) k)"
  define pre where "pre = ''incompatible task function signatures'' @ [CHR 0x0A]"
  define msg where "msg = pre @ ''between '' @ Name pt @ '' and '' @ Name ct @ '': ''
      @ a @ '' is not assignable to '' @ b"
  have m: "Error err = Some msg"
    by (simp add: err a_def b_def pre_def msg_def IncompatibleFunctionSignatureErr_def)
  have 1: "sublist (Name pt) msg"
    unfolding msg_def sublist_def
    by (intro exI [of _ "pre @ ''between ''"]
        exI [of _ "'' and '' @ Name ct @ '': '' @ a @ '' is not assignable to '' @ b"]) simp
  have 2: "sublist (Name ct) msg"
    unfolding msg_def sublist_def
    by (intro exI [of _ "pre @ ''between '' @ Name pt @ '' and ''"]
        exI [of _ "'': '' @ a @ '' is not assignable to '' @ b"]) simp
  have 3: "sublist a msg"
    unfolding msg_def sublist_def
    by (intro exI [of _ "pre @ ''between '' @ Name pt @ '' and '' @ Name ct @ '': ''"]
        exI [of _ "'' is not assignable to '' @ b"]) simp
  have 4: "sublist b msg"
    unfolding msg_def sublist_def
    by (intro exI [of _ "pre @ ''between '' @ Name pt @ '' and '' @ Name ct @ '': '' @ a
          @ '' is not assignable to ''"] exI [of _ "[]"]) simp
  have "errors_Is err IncompatibleFunctionSignatureErr"
    by (simp add: err)
  with k m 1 2 3 4 show ?thesis
    unfolding a_def b_def by blast
qed

text \<open>
  C1. The claim is that \<^verbatim>\<open>verifyTaskCompatibility\<close> fails at a position exactly when
  the producer's output type is not assignable to the consumer's input type. The code
  asks the opposite question. A producer \<^verbatim>\<open>func() int\<close> before a consumer
  \<^verbatim>\<open>func(x interface{})\<close> is refused, with a message that says that \<^verbatim>\<open>int\<close> is not
  assignable to \<^verbatim>\<open>interface {}\<close>, although it is; a producer \<^verbatim>\<open>func() interface{}\<close>
  before a consumer \<^verbatim>\<open>func(n int)\<close> is accepted, although \<^verbatim>\<open>interface {}\<close> is not
  assignable to \<^verbatim>\<open>int\<close>.
\<close>

theorem verifyTaskCompatibility_direction:
  "NewTask \<lparr> cfgName = ''producer'', cfgCleanup = None, cfgFn = FnFunc producer_fn \<rparr>
     = Inr (producer_task :: unit Task)
   \<and> NewTask \<lparr> cfgName = ''consumer'', cfgCleanup = None, cfgFn = FnFunc consumer_fn \<rparr>
     = Inr (consumer_task :: unit Task)
   \<and> AssignableTo TInt any_type
   \<and> verifyTaskCompatibility (producer_task :: unit Task) consumer_task
     = Some (JoinError [IncompatibleFunctionSignatureErr,
         ErrorString ''between producer and consumer: int is not assignable to interface {}''])
   \<and> NewTask \<lparr> cfgName = ''producer'', cfgCleanup = None, cfgFn = FnFunc any_producer_fn \<rparr>
     = Inr (any_producer_task :: unit Task)
   \<and> \<not> AssignableTo any_type TInt
   \<and> verifyTaskCompatibility (any_producer_task :: unit Task) second_task = None"
  by (simp add: NewTask_def producer_task_def consumer_task_def producer_fn_def consumer_fn_def
      any_producer_task_def any_producer_fn_def second_task_def second_fn_def
      hasErrorOut_of_last getReturnValueTypes_take NumOut_def NumIn_def In_def
      AssignableTo_def implements_def error_type_def any_type_def
      verifyTaskCompatibility_def range_ReturnValueTypes.simps [of _ _ 0]
      range_ReturnValueTypes.simps [of _ _ "Suc 0"])

subsection \<open>The result type of a chain\<close>

lemma verifyReturnType_None_iff:
  "verifyReturnType T t = None \<longleftrightarrow>
     NumOut (fnType (Fn t)) = 0
     \<or> AssignableTo (Out (fnType (Fn t)) (NumOut (fnType (Fn t)) - 1)) T"
  by (simp add: verifyReturnType_def Let_def)

lemma NewTaskChain_Inr_last:
  assumes "NewTaskChain T config = Inr tc" and "Tasks tc \<noteq> []"
  shows "verifyReturnType T (last (Tasks tc)) = None \<and> ResultType tc = T"
proof -
  define ts where "ts = map the (remove_nil (ccTasks config) 0)"
  have "ts \<noteq> []"
    using assms by (auto simp: NewTaskChain_def ts_def Let_def)
  from NewTaskChain_nonempty [OF ts_def [symmetric] this, of T] assms show ?thesis
    by (auto split: option.splits)
qed

lemma verifyReturnType_first:
  "verifyReturnType T first_task =
     (if AssignableTo error_type T then None
      else Some (ErrorString (''return type error is not compatible to the last output type: ''
             @ type_String T)))"
  by (simp add: verifyReturnType_def first_task_def first_fn_def NumOut_def Out_def error_type_def)

lemma range_pairs_single: "range_pairs n [t] (Suc 0) (Suc 0) = None"
  by (simp add: range_pairs.simps [of _ _ _ "Suc 0"])

lemma NewTaskChain_single_first:
  "NewTaskChain T (test_chain_cfg cu [first_task]) =
     (if AssignableTo error_type T then Inr (test_chain T cu [first_task] True)
      else Inl (WrapError (''failed to create task '' @ [CHR 0x27] @ ''test_chain'' @ [CHR 0x27]
             @ '': return type error is not compatible to the last output type: '' @ type_String T)
            (ErrorString (''return type error is not compatible to the last output type: ''
               @ type_String T))))"
proof -
  have "ReturnValueTypes (first_task :: 'a Task) \<noteq> []"
    by (simp add: first_task_def)
  then show ?thesis
    by (simp add: NewTaskChain_nonempty [where ts = "[first_task]"] test_chain_cfg_fields
        range_pairs_single verifyReturnType_first test_chain_def)
qed

lemma type_assert_int_error: "type_assert (VInt n) error_type = Panic InterfaceConversion"
  by (simp add: type_assert_def implements_def error_type_def)

text \<open>
  C9. \<^verbatim>\<open>verifyReturnType\<close> looks at the last declared output of the last task,
  the error slot included. When \<^verbatim>\<open>NewTaskChain\<close> returns a chain whose last task has
  an error out, that last declared output is the error slot and it is assignable to
  the result type \<^verbatim>\<open>T\<close>. So the chain with result type \<^verbatim>\<open>int\<close> of the one task
  \<^verbatim>\<open>func(s string) (int, error)\<close> is refused, although the only value that the task
  hands on is an \<^verbatim>\<open>int\<close>.
\<close>

theorem NewTaskChain_checks_error_slot:
  assumes "NewTaskChain T config = Inr tc" and "Tasks tc \<noteq> []"
    and "hasErrorOut_of (fnType (Fn (last (Tasks tc))))"
  shows "AssignableTo (last (results (fnType (Fn (last (Tasks tc)))))) error_type
       \<and> AssignableTo (last (results (fnType (Fn (last (Tasks tc)))))) T
       \<and> hasErrorOut_of (fnType (Fn first_task))
       \<and> results (fnType (Fn first_task)) = [TInt, error_type]
       \<and> ReturnValueTypes first_task = [TInt]
       \<and> (\<exists>err. NewTaskChain TInt (test_chain_cfg cu [first_task]) = Inl err)"
proof -
  from assms(3) have ne: "results (fnType (Fn (last (Tasks tc)))) \<noteq> []"
    and err: "AssignableTo (last (results (fnType (Fn (last (Tasks tc)))))) error_type"
    by (simp_all add: hasErrorOut_of_last)
  from NewTaskChain_Inr_last [OF assms(1,2)] ne
  have "AssignableTo (last (results (fnType (Fn (last (Tasks tc)))))) T"
    by (simp add: verifyReturnType_None_iff NumOut_def Out_def last_conv_nth)
  moreover have "hasErrorOut_of (fnType (Fn first_task))"
    "results (fnType (Fn first_task)) = [TInt, error_type]"
    "ReturnValueTypes first_task = [TInt]"
    by (simp_all add: hasErrorOut_of_last first_task_def first_fn_def AssignableTo_simps)
  moreover have "\<exists>err. NewTaskChain TInt (test_chain_cfg cu [first_task]) = Inl err"
    by (simp add: NewTaskChain_single_first AssignableTo_simps)
  ultimately show ?thesis using err by blast
qed

theorem NewTaskChain_checks_error_slot_witness:
  "NewTaskChain any_type (test_chain_cfg None [first_task :: unit Task])
     = Inr (test_chain any_type None [first_task] True)
   \<and> Tasks (test_chain any_type None [first_task :: unit Task] True) \<noteq> []
   \<and> hasErrorOut_of (fnType (Fn (first_task :: unit Task)))
   \<and> AssignableTo error_type error_type
   \<and> AssignableTo error_type any_type
   \<and> (\<exists>err. NewTaskChain TInt (test_chain_cfg None [first_task :: unit Task]) = Inl err)"
proof -
  have c: "NewTaskChain any_type (test_chain_cfg None [first_task :: unit Task])
      = Inr (test_chain any_type None [first_task] True)"
    by (simp add: NewTaskChain_single_first AssignableTo_def implements_def error_type_def
        any_type_def del: One_nat_def)
  have t: "Tasks (test_chain any_type None [first_task :: unit Task] True) \<noteq> []"
    by (simp add: test_chain_fields)
  have h: "hasErrorOut_of (fnType (Fn (last (Tasks (test_chain any_type None
      [first_task :: unit Task] True)))))"
    by (simp add: test_chain_fields hasErrorOut_of_last first_task_def first_fn_def
        AssignableTo_simps)
  from NewTaskChain_checks_error_slot [OF c t h, of None] c t h show ?thesis
    by (simp add: test_chain_fields first_task_def first_fn_def)
qed

lemma Run_single_first:
  "Run (test_chain T cu [first_task] True) None [VString ''10''] w
     = (case type_assert (VInt 10) T of
          Panic p \<Rightarrow> (Panic p, w\<lparr>trace := trace w @ [EvCall ''first'']\<rparr>)
        | Ok v \<Rightarrow>
           return_doCleanup (test_chain T cu [first_task] True) v None
             (w\<lparr>trace := trace w @ [EvCall ''first'']\<rparr>))"
  by (simp add: Run_def test_chain_fields verifyInitialParams_first Task_Run_first
      split: outcome.splits)

text \<open>
  C2. The claim is that a chain that was constructed never fails in the type
  assertion \<^verbatim>\<open>.(T)\<close> at the end of \<^verbatim>\<open>Run\<close>. The check at construction reads the
  error slot of the last task, the assertion reads its last data output. The chain
  with result type \<^verbatim>\<open>error\<close> of the one task \<^verbatim>\<open>func(s string) (int, error)\<close> is
  constructed; \<^verbatim>\<open>Run\<close> with \<^verbatim>\<open>"10"\<close> runs the task, is left with the int 10, which
  is not assignable to \<^verbatim>\<open>error\<close>, and panics in the assertion.
\<close>

theorem Run_cast_panics:
  "NewTask first_cfg = Inr (first_task :: unit Task)
   \<and> NewTaskChain error_type (test_chain_cfg None [first_task :: unit Task])
       = Inr (test_chain error_type None [first_task] True)
   \<and> Run (test_chain error_type None [first_task :: unit Task] True) None [VString ''10'']
        \<lparr> ustate = (), trace = [] \<rparr>
       = (Panic InterfaceConversion, \<lparr> ustate = (), trace = [EvCall ''first''] \<rparr>)
   \<and> \<not> AssignableTo TInt error_type"
  by (simp add: NewTask_first NewTaskChain_single_first Run_single_first AssignableTo_simps
      type_assert_int_error)

subsection \<open>Cleanup as the last step\<close>

lemma return_doCleanup_eq:
  "return_doCleanup tc v err w =
     (case chainCleanup tc of
        None \<Rightarrow> (Ok (v, err), w)
      | Some c \<Rightarrow>
          (case c (ustate w) of
             (e, s') \<Rightarrow>
               (Ok (v, if e = None then err else errors_Join [e, err]),
                w\<lparr>ustate := s', trace := trace w @ [EvChainCleanup (chainName tc)]\<rparr>)))"
  by (auto simp: return_doCleanup_def Chain_doCleanup_def Let_def split: option.splits prod.splits)







lemma range_Tasks_append:
  assumes "loop_passes ctx pre cur w = Some (cur', w')"
  shows "range_Tasks tc ctx i (pre @ rest) cur w = range_Tasks tc ctx (i + length pre) rest cur' w'"
  using assms
proof (induction pre arbitrary: i cur w)
  case Nil
  then show ?case by simp
next
  case (Cons t pre)
  from Cons.prems have no: "\<not> (ctx \<noteq> None \<and> ctx_Err ctx (ustate w) \<noteq> None)"
    by (auto split: if_splits)
  with Cons.prems obtain res w1 where r: "Task_Run t cur w = (Ok (res, None), w1)"
    and p: "loop_passes ctx pre res w1 = Some (cur', w')"
    by (auto split: if_splits prod.splits outcome.splits option.splits)
  from Cons.IH [OF p, of "i + 1"] no r show ?case by auto
qed


text \<open>After the loop: the code that follows it, on the values the loop ends with.\<close>

lemma Run_passes:
  assumes "Tasks tc \<noteq> []"
    and "verifyInitialParams (fnType (Fn (Tasks tc ! 0))) ps = Ok None"
    and "loop_passes ctx (Tasks tc) (map ValueOf ps) w = Some (cur, w1)"
  shows "Run tc ctx ps w = range_Tasks tc ctx (length (Tasks tc)) [] cur w1"
  using assms range_Tasks_append [OF assms(3), of tc 0 "[]"] by (simp add: Run_def)

subsection \<open>The value returned with an error\<close>

lemma return_doCleanup_value:
  assumes "return_doCleanup tc v err w = (Ok (v', e'), w')"
  shows "v' = v"
  using assms by (auto simp: return_doCleanup_eq split: option.splits prod.splits)

lemma return_doCleanup_cleanup_alone:
  assumes "return_doCleanup tc v None w = (Ok (v', Some e), w')"
  shows "\<exists>c ce. chainCleanup tc = Some c \<and> c (ustate w) = (Some ce, ustate w') \<and> e = JoinError [ce]"
proof -
  from assms obtain c where c: "chainCleanup tc = Some c"
    by (cases "chainCleanup tc") (auto simp: return_doCleanup_eq)
  obtain ce s' where r: "c (ustate w) = (ce, s')" by (cases "c (ustate w)")
  with assms c obtain x where "ce = Some x" "e = JoinError [x]" "ustate w' = s'"
    by (cases ce) (auto simp: return_doCleanup_eq)
  with c r show ?thesis by blast
qed

lemma range_Tasks_error_value:
  assumes "range_Tasks tc ctx i ts cur w = (Ok (v, Some e), w')"
  shows "v = Zero (ResultType tc)
       \<or> (\<exists>c ce cur1 w1 x. chainCleanup tc = Some c
             \<and> loop_passes ctx ts cur w = Some (cur1, w1) \<and> cur1 \<noteq> []
             \<and> Interface (last cur1) = Ok x \<and> type_assert x (ResultType tc) = Ok v
             \<and> c (ustate w1) = (Some ce, ustate w') \<and> e = JoinError [ce])"
  using assms
proof (induction ts arbitrary: i cur w)
  case Nil
  show ?case
  proof (cases "cur = []")
    case True
    with Nil show ?thesis by (auto dest: return_doCleanup_value)
  next
    case False
    with Nil obtain x y where x: "Interface (last cur) = Ok x" "type_assert x (ResultType tc) = Ok y"
      and r: "return_doCleanup tc y None w = (Ok (v, Some e), w')"
      by (auto split: outcome.splits)
    from return_doCleanup_value [OF r] have "v = y" .
    with return_doCleanup_cleanup_alone [OF r] x False show ?thesis by auto
  qed
next
  case (Cons t ts)
  show ?case
  proof (cases "ctx \<noteq> None \<and> ctx_Err ctx (ustate w) \<noteq> None")
    case True
    with Cons.prems show ?thesis by (auto dest: return_doCleanup_value)
  next
    case False
    obtain r w1 where r: "Task_Run t cur w = (r, w1)" by (cases "Task_Run t cur w")
    show ?thesis
    proof (cases r)
      case (Panic p)
      with Cons.prems False r show ?thesis by auto
    next
      case (Ok res)
      obtain vs err where res: "res = (vs, err)" by (cases res)
      show ?thesis
      proof (cases err)
        case None
        with Cons.prems False r Ok res have "range_Tasks tc ctx (i + 1) ts vs w1 = (Ok (v, Some e), w')"
          by auto
        from Cons.IH [OF this] False r Ok res None show ?thesis by auto
      next
        case (Some x)
        with Cons.prems False r Ok res show ?thesis by (auto dest: return_doCleanup_value)
      qed
    qed
  qed
qed

text \<open>
  C3, as amended. When \<^verbatim>\<open>Run\<close> returns an error, the value returned is the zero
  value of \<^verbatim>\<open>T\<close>, except when every task succeeded and only the chain's cleanup
  failed: then, and always then, \<^verbatim>\<open>Run\<close> returns the computed value, which is the
  last of the values that the last task handed on, together with the join of the
  cleanup's error alone.
\<close>

theorem Run_error_value:
  "(Run tc ctx ps w = (Ok (v, Some e), w') \<longrightarrow>
      v = Zero (ResultType tc)
      \<or> (\<exists>c ce cur w1 x. chainCleanup tc = Some c \<and> Tasks tc \<noteq> []
            \<and> verifyInitialParams (fnType (Fn (Tasks tc ! 0))) ps = Ok None
            \<and> loop_passes ctx (Tasks tc) (map ValueOf ps) w = Some (cur, w1) \<and> cur \<noteq> []
            \<and> Interface (last cur) = Ok x \<and> type_assert x (ResultType tc) = Ok v
            \<and> c (ustate w1) = (Some ce, ustate w') \<and> e = JoinError [ce]))
   \<and> (Tasks tc \<noteq> []
        \<and> verifyInitialParams (fnType (Fn (Tasks tc ! 0))) qs = Ok None
        \<and> loop_passes ctx (Tasks tc) (map ValueOf qs) u = Some (cur', u') \<and> cur' \<noteq> []
        \<and> Interface (last cur') = Ok x' \<and> type_assert x' (ResultType tc) = Ok v'
        \<and> chainCleanup tc = Some c' \<and> c' (ustate u') = (Some ce', s') \<longrightarrow>
      Run tc ctx qs u
        = (Ok (v', Some (JoinError [ce'])),
           u'\<lparr>ustate := s', trace := trace u' @ [EvChainCleanup (chainName tc)]\<rparr>))"
proof (intro conjI impI)
  assume run: "Run tc ctx ps w = (Ok (v, Some e), w')"
  show "v = Zero (ResultType tc)
      \<or> (\<exists>c ce cur w1 x. chainCleanup tc = Some c \<and> Tasks tc \<noteq> []
            \<and> verifyInitialParams (fnType (Fn (Tasks tc ! 0))) ps = Ok None
            \<and> loop_passes ctx (Tasks tc) (map ValueOf ps) w = Some (cur, w1) \<and> cur \<noteq> []
            \<and> Interface (last cur) = Ok x \<and> type_assert x (ResultType tc) = Ok v
            \<and> c (ustate w1) = (Some ce, ustate w') \<and> e = JoinError [ce])"
  proof (cases "length (Tasks tc) = 0")
    case True
    with run show ?thesis by (auto simp: Run_def dest: return_doCleanup_value)
  next
    case False
    show ?thesis
    proof (cases "verifyInitialParams (fnType (Fn (Tasks tc ! 0))) ps")
      case (Panic p)
      with run False show ?thesis by (simp add: Run_def)
    next
      case (Ok r)
      show ?thesis
      proof (cases r)
        case None
        with run False Ok
        have "range_Tasks tc ctx 0 (Tasks tc) (map ValueOf ps) w = (Ok (v, Some e), w')"
          by (simp add: Run_def)
        from range_Tasks_error_value [OF this] False Ok None show ?thesis by auto
      next
        case (Some err)
        with run False Ok show ?thesis by (auto simp: Run_def dest: return_doCleanup_value)
      qed
    qed
  qed
next
  assume h: "Tasks tc \<noteq> []
        \<and> verifyInitialParams (fnType (Fn (Tasks tc ! 0))) qs = Ok None
        \<and> loop_passes ctx (Tasks tc) (map ValueOf qs) u = Some (cur', u') \<and> cur' \<noteq> []
        \<and> Interface (last cur') = Ok x' \<and> type_assert x' (ResultType tc) = Ok v'
        \<and> chainCleanup tc = Some c' \<and> c' (ustate u') = (Some ce', s')"
  then have "Run tc ctx qs u = range_Tasks tc ctx (length (Tasks tc)) [] cur' u'"
    by (intro Run_passes) auto
  with h show "Run tc ctx qs u
        = (Ok (v', Some (JoinError [ce'])),
           u'\<lparr>ustate := s', trace := trace u' @ [EvChainCleanup (chainName tc)]\<rparr>)"
    by (simp add: return_doCleanup_eq)
qed

lemma verifyInitialParams_first_count:
  "verifyInitialParams (fnType (Fn first_task)) []
     = Ok (Some (ErrorString ''invalid input params: expected 1 params but got 0''))"
  by (simp add: verifyInitialParams_def first_task_def first_fn_def NumIn_def
      decimal.simps [of 0] decimal.simps [of 1] decimal.simps [of "Suc 0"] digit_char_def)

lemma failing_cleanup_apply: "failing_cleanup s = (Some (ErrorString ''Cleanup error''), s)"
  by (simp add: failing_cleanup_def)

lemma Run_first_count:
  "Run (test_chain T cu [first_task, second_task] True) ctx [] w
     = return_doCleanup (test_chain T cu [first_task, second_task] True) (Zero T)
         (Some (WrapError ''error running test_chain: invalid input params: expected 1 params but got 0''
            (ErrorString ''invalid input params: expected 1 params but got 0''))) w"
  by (simp add: Run_def test_chain_fields verifyInitialParams_first_count)

lemma verifyInitialParams_first_string:
  "verifyInitialParams (fnType (Fn first_task)) [VString str] = Ok None"
  by (simp add: verifyInitialParams_def range_params.simps [of _ _ 0]
      range_params.simps [of _ _ "Suc 0"] first_task_def first_fn_def NumIn_def In_def
      AssignableTo_simps)

lemma Atoi_30: "Atoi ''30'' = (30, None)"
  by (simp add: Atoi_def)

lemma loop_passes_30:
  "loop_passes None [first_task, second_task] [RV TString (VString ''30'')] w
     = Some ([RV TInt (VInt 300)], w\<lparr>trace := trace w @ [EvCall ''first'', EvCall ''second'']\<rparr>)"
proof -
  have 1: "Task_Run first_task [RV TString (VString ''30'')] w
     = (Ok ([RV TInt (VInt 30)], None), w\<lparr>trace := trace w @ [EvCall ''first'']\<rparr>)" for w :: "'a world"
    by (simp add: Task_Run_def Call_def first_task_def first_fn_def NumIn_def AssignableTo_simps
        Atoi_30 Task_doCleanup_def)
  have 2: "Task_Run second_task [RV TInt (VInt 30)] w
     = (Ok ([RV TInt (VInt 300)], None), w\<lparr>trace := trace w @ [EvCall ''second'']\<rparr>)" for w :: "'a world"
    by (simp add: Task_Run_def Call_def second_task_def second_fn_def NumIn_def AssignableTo_simps
        Task_doCleanup_def)
  show ?thesis by (simp add: 1 2)
qed

theorem Run_error_value_witness:
  "Run (test_chain TInt (Some failing_cleanup) [first_task, second_task] True) None []
       \<lparr> ustate = (), trace = [] \<rparr>
     = (Ok (VInt 0, Some (JoinError [ErrorString ''Cleanup error'',
          WrapError ''error running test_chain: invalid input params: expected 1 params but got 0''
            (ErrorString ''invalid input params: expected 1 params but got 0'')])),
        \<lparr> ustate = (), trace = [EvChainCleanup ''test_chain''] \<rparr>)
   \<and> VInt 0 = Zero (ResultType (test_chain TInt (Some failing_cleanup)
        [first_task, second_task :: unit Task] True))
   \<and> loop_passes None (Tasks (test_chain TInt (Some failing_cleanup)
          [first_task, second_task :: unit Task] True))
        (map ValueOf [VString ''30'']) \<lparr> ustate = (), trace = [] \<rparr>
     = Some ([RV TInt (VInt 300)], \<lparr> ustate = (), trace = [EvCall ''first'', EvCall ''second''] \<rparr>)
   \<and> Run (test_chain TInt (Some failing_cleanup) [first_task, second_task] True) None
        [VString ''30''] \<lparr> ustate = (), trace = [] \<rparr>
     = (Ok (VInt 300, Some (JoinError [ErrorString ''Cleanup error''])),
        \<lparr> ustate = (),
          trace = [EvCall ''first'', EvCall ''second'', EvChainCleanup ''test_chain''] \<rparr>)"
proof -
  let ?tc = "test_chain TInt (Some failing_cleanup) [first_task, second_task :: unit Task] True"
  let ?w = "\<lparr> ustate = (), trace = [] \<rparr> :: unit world"
  let ?w1 = "\<lparr> ustate = (), trace = [EvCall ''first'', EvCall ''second''] \<rparr> :: unit world"
  have r: "Run ?tc None [] ?w
     = (Ok (VInt 0, Some (JoinError [ErrorString ''Cleanup error'',
          WrapError ''error running test_chain: invalid input params: expected 1 params but got 0''
            (ErrorString ''invalid input params: expected 1 params but got 0'')])),
        \<lparr> ustate = (), trace = [EvChainCleanup ''test_chain''] \<rparr>)"
    by (simp add: Run_first_count return_doCleanup_eq test_chain_fields failing_cleanup_apply)
  have p: "loop_passes None (Tasks ?tc) (map ValueOf [VString ''30'']) ?w
      = Some ([RV TInt (VInt 300)], ?w1)"
    by (simp add: test_chain_fields loop_passes_30 del: loop_passes.simps)
  have h: "Tasks ?tc \<noteq> []
        \<and> verifyInitialParams (fnType (Fn (Tasks ?tc ! 0))) [VString ''30''] = Ok None
        \<and> loop_passes None (Tasks ?tc) (map ValueOf [VString ''30'']) ?w
            = Some ([RV TInt (VInt 300)], ?w1)
        \<and> [RV TInt (VInt 300)] \<noteq> []
        \<and> Interface (last [RV TInt (VInt 300)]) = Ok (VInt 300)
        \<and> type_assert (VInt 300) (ResultType ?tc) = Ok (VInt 300)
        \<and> chainCleanup ?tc = Some failing_cleanup
        \<and> failing_cleanup (ustate ?w1) = (Some (ErrorString ''Cleanup error''), ())"
    using p by (simp add: test_chain_fields verifyInitialParams_first_string type_assert_def
        failing_cleanup_apply)
  note inst = Run_error_value [where tc = "?tc" and ctx = None and ps = "[]" and w = "?w"
      and v = "VInt 0" and qs = "[VString ''30'']" and u = "?w"
      and cur' = "[RV TInt (VInt 300)]" and u' = "?w1" and x' = "VInt 300" and v' = "VInt 300"
      and c' = failing_cleanup and ce' = "ErrorString ''Cleanup error''" and s' = "()"]
  from inst [THEN conjunct1, rule_format, OF r]
  have a: "VInt 0 = Zero (ResultType ?tc)"
    by (simp add: test_chain_fields)
  from inst [THEN conjunct2, rule_format, OF h]
  have b: "Run ?tc None [VString ''30''] ?w
     = (Ok (VInt 300, Some (JoinError [ErrorString ''Cleanup error''])),
        \<lparr> ustate = (),
          trace = [EvCall ''first'', EvCall ''second'', EvChainCleanup ''test_chain''] \<rparr>)"
    by (simp add: test_chain_fields)
  from r a p b show ?thesis by simp
qed

text \<open>
  C3 as stated fails: the chain of the two tasks with a cleanup that fails returns the
  computed 100, not the zero value, together with the cleanup's error.
\<close>

theorem Run_error_value_counterexample:
  "NewTaskChain TInt (test_chain_cfg (Some failing_cleanup) [first_task, second_task :: unit Task])
     = Inr (test_chain TInt (Some failing_cleanup) [first_task, second_task] True)
   \<and> Run (test_chain TInt (Some failing_cleanup) [first_task, second_task] True) None
       [VString ''10''] \<lparr> ustate = (), trace = [] \<rparr>
     = (Ok (VInt 100, Some (JoinError [ErrorString ''Cleanup error''])),
        \<lparr> ustate = (),
          trace = [EvCall ''first'', EvCall ''second'', EvChainCleanup ''test_chain''] \<rparr>)
   \<and> VInt 100 \<noteq> Zero (ResultType (test_chain TInt (Some failing_cleanup)
        [first_task, second_task :: unit Task] True))"
  by (simp add: NewTaskChain_test_chain Run_test_chain ctx_Err_never type_assert_def
      return_doCleanup_eq test_chain_fields failing_cleanup_apply)

subsection \<open>Cancellation\<close>







subsection \<open>Cleanup\<close>















end
